theory Spec2Isabelle
  imports Main
begin

section \<open>The command-line dispatcher of health-to-pdf.ts\<close>

text \<open>
  The source file is a single asynchronous function \<open>main\<close>: it scans the argument list for a
  help request, parses the arguments in a loop, validates the parsed options, fills in a default
  output filename, prints a status block and calls one of three exporters. The exporters and the
  filesystem are outside the file; they are parameters of the model. Everything \<open>main\<close> does
  that can be observed (console output, exporter calls, the way the process ends) is returned
  as a value.
\<close>

subsection \<open>Data model\<close>

text \<open>
  \<open>Partial<CliOptions>\<close>: the record the loop fills in. A field that was never assigned, or
  that was assigned \<open>args[++i]\<close> past the end of the list, holds \<open>undefined\<close>, here \<open>None\<close>.
  The two booleans are set in the initial object literal and only ever assigned booleans.
\<close>

record CliOptions =
  type :: "string option"
  input :: "string option"
  "output" :: "string option"
  includeDailyTable :: bool
  "help" :: bool

text \<open>A value thrown by an exporter: an \<open>Error\<close> object with its message, or anything else.\<close>

datatype 'v thrown = ErrorObject string | OtherValue 'v

text \<open>
  What awaiting the promise of an exporter gives: it resolves, it rejects (or the call throws)
  with a value, or it never settles (\<open>Pending\<close>).
\<close>

datatype 'v outcome = Resolved | Rejected "'v thrown" | Pending

text \<open>The world outside the file: \<open>existsSync\<close> and the three imported exporters.\<close>

record 'v env =
  existsSync :: "string \<Rightarrow> bool"
  exportHeartRate :: "string option \<Rightarrow> string option \<Rightarrow> bool \<Rightarrow> 'v outcome"
  exportSleep :: "string option \<Rightarrow> string option \<Rightarrow> bool \<Rightarrow> 'v outcome"
  exportMedication :: "string option \<Rightarrow> string option \<Rightarrow> bool \<Rightarrow> 'v outcome"

text \<open>
  Console lines are kept by what they say, not by their text. The second argument of the
  \<open>console.error\<close> in the \<open>catch\<close> block is \<open>error.message\<close> or the thrown value itself.
  The elapsed time printed with the success line comes from the clock and is left out.
\<close>

datatype 'v shown = Message string | Raw 'v

datatype 'v errorLine =
    InputRequired
  | TypeRequired
  | TypeInvalid
  | InputNotFound "string option"
  | Caught "'v shown"

datatype logLine =
    Title
  | InputIs "string option"
  | TypeIs "string option"
  | OutputIs "string option"
  | DailyTableIs bool
  | Blank
  | Created "string option"
  | ShareHint

datatype exporterName = ExportHeartRate | ExportSleep | ExportMedication

datatype 'v event =
    PrintUsage
  | ConsoleError "'v errorLine"
  | ConsoleLog logLine
  | Call exporterName "string option" "string option" bool

text \<open>
  How \<open>main\<close> ends: with a call of \<open>process.exit(n)\<close>; with a normal return (the process
  then ends by itself); or not at all, when the awaited exporter never settles. In the last
  case \<open>main\<close> stays suspended at its \<open>await\<close>: the process lives as long as something
  keeps its event loop busy, and ends by itself when nothing does.
\<close>

datatype ending = Exited nat | Returned | Suspended

record 'v run =
  events :: "'v event list"
  ending :: ending

subsection \<open>JavaScript helpers\<close>

text \<open>\<open>!x\<close> on a \<open>string | undefined\<close> is true for \<open>undefined\<close> and for the empty string.\<close>

definition truthy :: "string option \<Rightarrow> bool" where
  "truthy v = (case v of None \<Rightarrow> False | Some s \<Rightarrow> s \<noteq> [])"

definition startsWith :: "string \<Rightarrow> string \<Rightarrow> bool" where
  "startsWith s p = (take (length p) s = p)"

definition includes' :: "string list \<Rightarrow> string option \<Rightarrow> bool" where
  "includes' xs v = (case v of None \<Rightarrow> False | Some s \<Rightarrow> s \<in> set xs)"

subsection \<open>The argument loop (lines 55 to 86)\<close>

text \<open>
  The loop \<open>for (let i = 0; i < args.length; i++)\<close> with its \<open>switch\<close>. The second argument is
  the part of \<open>args\<close> from index \<open>i\<close> on. A value-taking flag reads \<open>args[++i]\<close>: the next token
  when there is one, \<open>undefined\<close> otherwise, and the loop goes on after it.
\<close>

fun parseLoop :: "CliOptions \<Rightarrow> string list \<Rightarrow> CliOptions" where
  "parseLoop options [] = options"
| "parseLoop options (arg # rest) =
    (if arg = ''--type'' \<or> arg = ''-t'' then
       (case rest of
          [] \<Rightarrow> options\<lparr>type := None\<rparr>
        | v # rest' \<Rightarrow> parseLoop (options\<lparr>type := Some v\<rparr>) rest')
     else if arg = ''--input'' \<or> arg = ''-i'' then
       (case rest of
          [] \<Rightarrow> options\<lparr>input := None\<rparr>
        | v # rest' \<Rightarrow> parseLoop (options\<lparr>input := Some v\<rparr>) rest')
     else if arg = ''--output'' \<or> arg = ''-o'' then
       (case rest of
          [] \<Rightarrow> options\<lparr>output := None\<rparr>
        | v # rest' \<Rightarrow> parseLoop (options\<lparr>output := Some v\<rparr>) rest')
     else if arg = ''--no-daily-table'' then
       parseLoop (options\<lparr>includeDailyTable := False\<rparr>) rest
     else if arg = ''--help'' \<or> arg = ''-h'' then
       parseLoop (options\<lparr>help := True\<rparr>) rest
     else if \<not> truthy (input options) \<and> \<not> startsWith arg ''--'' then
       parseLoop (options\<lparr>input := Some arg\<rparr>) rest
     else if \<not> truthy (output options) \<and> \<not> startsWith arg ''--'' then
       parseLoop (options\<lparr>output := Some arg\<rparr>) rest
     else parseLoop options rest)"

text \<open>The object literal of lines 50 to 53.\<close>

definition initialOptions :: CliOptions where
  "initialOptions =
     \<lparr>type = None, input = None, output = None, includeDailyTable = True, help = False\<rparr>"

subsection \<open>Validation and the default output name (lines 88 to 127)\<close>

definition typeNames :: "(string \<times> string) list" where
  "typeNames =
     [(''heart'', ''herzfrequenz-bericht.pdf''),
      (''sleep'', ''schlaf-bericht.pdf''),
      (''medication'', ''medikation-bericht.pdf'')]"

text \<open>\<open>typeNames[options.type]\<close>: a missing key gives \<open>undefined\<close>.\<close>

definition typeNameOf :: "string option \<Rightarrow> string option" where
  "typeNameOf t = (case t of None \<Rightarrow> None | Some k \<Rightarrow> map_of typeNames k)"

text \<open>\<open>existsSync(options.input)\<close>; it answers false for what is not a path.\<close>

definition inputExists :: "'v env \<Rightarrow> string option \<Rightarrow> bool" where
  "inputExists env p = (case p of None \<Rightarrow> False | Some f \<Rightarrow> existsSync env f)"

text \<open>
  \<open>Inl\<close> is a run that ended in \<open>process.exit\<close>; \<open>Inr\<close> is the record that line 127 names
  \<open>config\<close>. The cast there does nothing at run time, so the fields stay optional here.
\<close>

definition validate :: "'v env \<Rightarrow> CliOptions \<Rightarrow> 'v run + CliOptions" where
  "validate env options =
    (if help options then
       Inl \<lparr>events = [PrintUsage], ending = Exited 0\<rparr>
     else if \<not> truthy (input options) then
       Inl \<lparr>events = [ConsoleError InputRequired, PrintUsage], ending = Exited 1\<rparr>
     else if \<not> truthy (type options) then
       Inl \<lparr>events = [ConsoleError TypeRequired, PrintUsage], ending = Exited 1\<rparr>
     else if \<not> includes' [''heart'', ''sleep'', ''medication''] (type options) then
       Inl \<lparr>events = [ConsoleError TypeInvalid], ending = Exited 1\<rparr>
     else if \<not> inputExists env (input options) then
       Inl \<lparr>events = [ConsoleError (InputNotFound (input options))], ending = Exited 1\<rparr>
     else if \<not> truthy (output options) then
       Inr (options\<lparr>output := typeNameOf (type options)\<rparr>)
     else Inr options)"

subsection \<open>Dispatch (lines 129 to 157)\<close>

definition statusBlock :: "CliOptions \<Rightarrow> 'v event list" where
  "statusBlock config =
     [ConsoleLog Title,
      ConsoleLog (InputIs (input config)),
      ConsoleLog (TypeIs (type config)),
      ConsoleLog (OutputIs (output config)),
      ConsoleLog (DailyTableIs (includeDailyTable config)),
      ConsoleLog Blank]"

definition successLines :: "CliOptions \<Rightarrow> 'v event list" where
  "successLines config = [ConsoleLog (Created (output config)), ConsoleLog ShareHint]"

text \<open>\<open>error instanceof Error ? error.message : error\<close>.\<close>

fun shownOf :: "'v thrown \<Rightarrow> 'v shown" where
  "shownOf (ErrorObject m) = Message m"
| "shownOf (OtherValue v) = Raw v"

text \<open>The \<open>switch (config.type)\<close> inside \<open>try\<close>: which exporter is called, if any.\<close>

definition selected :: "'v env \<Rightarrow> CliOptions \<Rightarrow> (exporterName \<times> 'v outcome) option" where
  "selected env config =
    (if type config = Some ''heart'' then
       Some (ExportHeartRate,
             exportHeartRate env (input config) (output config) (includeDailyTable config))
     else if type config = Some ''sleep'' then
       Some (ExportSleep,
             exportSleep env (input config) (output config) (includeDailyTable config))
     else if type config = Some ''medication'' then
       Some (ExportMedication,
             exportMedication env (input config) (output config) (includeDailyTable config))
     else None)"

definition dispatch :: "'v env \<Rightarrow> CliOptions \<Rightarrow> 'v run" where
  "dispatch env config =
    (case selected env config of
       None \<Rightarrow>
         \<lparr>events = statusBlock config @ successLines config, ending = Returned\<rparr>
     | Some (name, result) \<Rightarrow>
         (let call = Call name (input config) (output config) (includeDailyTable config) in
          case result of
            Resolved \<Rightarrow>
              \<lparr>events = statusBlock config @ [call] @ successLines config, ending = Returned\<rparr>
          | Rejected e \<Rightarrow>
              \<lparr>events = statusBlock config @ [call, ConsoleError (Caught (shownOf e))],
               ending = Exited 1\<rparr>
          | Pending \<Rightarrow>
              \<lparr>events = statusBlock config @ [call], ending = Suspended\<rparr>))"

subsection \<open>The whole of \<open>main\<close>\<close>

text \<open>The test of line 44.\<close>

definition helpRequested :: "string list \<Rightarrow> bool" where
  "helpRequested args = (args = [] \<or> ''--help'' \<in> set args \<or> ''-h'' \<in> set args)"

text \<open>
  Lines 42 to 86: the options record after the loop, for a run that gets to the loop; \<open>None\<close>
  when the test of line 44 ends the process first.
\<close>

definition parse :: "string list \<Rightarrow> CliOptions option" where
  "parse args = (if helpRequested args then None else Some (parseLoop initialOptions args))"

text \<open>Lines 42 to 127: either the process has exited, or \<open>config\<close> is built.\<close>

definition configure :: "'v env \<Rightarrow> string list \<Rightarrow> 'v run + CliOptions" where
  "configure env args =
    (case parse args of
       None \<Rightarrow> Inl \<lparr>events = [PrintUsage], ending = Exited 0\<rparr>
     | Some options \<Rightarrow> validate env options)"

definition main :: "'v env \<Rightarrow> string list \<Rightarrow> 'v run" where
  "main env args =
    (case configure env args of
       Inl stopped \<Rightarrow> stopped
     | Inr config \<Rightarrow> dispatch env config)"

subsection \<open>Positions of the argument list\<close>

text \<open>
  The six spellings whose \<open>case\<close> reads \<open>args[++i]\<close>.
\<close>

definition valueFlags :: "string list" where
  "valueFlags = [''--type'', ''-t'', ''--input'', ''-i'', ''--output'', ''-o'']"

text \<open>All nine spellings that have a \<open>case\<close> of their own; any other token goes to \<open>default\<close>.\<close>

definition knownFlags :: "string list" where
  "knownFlags =
     [''--type'', ''-t'', ''--input'', ''-i'', ''--output'', ''-o'',
      ''--no-daily-table'', ''--help'', ''-h'']"

text \<open>
  The loop does not look at every token in its \<open>switch\<close>: the index skips the token read by
  \<open>args[++i]\<close>. \<open>switchTokens args\<close> are the tokens of \<open>args\<close> that the \<open>switch\<close> is run on, in
  order, and \<open>atSwitch pre\<close> says that the index reaches \<open>length pre\<close>, so that the token right
  after the prefix \<open>pre\<close> (if any) is one of them.
\<close>

fun switchTokens :: "string list \<Rightarrow> string list" where
  "switchTokens [] = []"
| "switchTokens (arg # rest) =
    (if arg \<in> set valueFlags then
       (case rest of [] \<Rightarrow> [arg] | v # rest' \<Rightarrow> arg # switchTokens rest')
     else arg # switchTokens rest)"

fun atSwitch :: "string list \<Rightarrow> bool" where
  "atSwitch [] = True"
| "atSwitch (arg # rest) =
    (if arg \<in> set valueFlags then
       (case rest of [] \<Rightarrow> False | v # rest' \<Rightarrow> atSwitch rest')
     else atSwitch rest)"

subsection \<open>Exporter calls in a run\<close>

fun isCall :: "'v event \<Rightarrow> bool" where
  "isCall (Call name i out d) = True"
| "isCall ev = False"

subsection \<open>A sample world\<close>

text \<open>
  One file exists, \<open>export.xml\<close>. The heart-rate exporter resolves, the sleep exporter rejects
  with an \<open>Error\<close>, the medication exporter throws a value that is not an \<open>Error\<close>.
\<close>

definition sampleExists :: "string \<Rightarrow> bool" where
  "sampleExists p = (p = ''export.xml'')"

definition sampleEnv :: "string env" where
  "sampleEnv =
     \<lparr>existsSync = sampleExists,
      exportHeartRate = (\<lambda>i out d. Resolved),
      exportSleep = (\<lambda>i out d. Rejected (ErrorObject ''no sleep records'')),
      exportMedication = (\<lambda>i out d. Rejected (OtherValue ''disk full''))\<rparr>"

section \<open>Facts about the loop\<close>

text \<open>One rewrite rule for each group of \<open>case\<close> labels of the \<open>switch\<close>.\<close>

lemma parseLoop_type:
  "arg = ''--type'' \<or> arg = ''-t'' \<Longrightarrow>
   parseLoop options (arg # rest) =
     (case rest of [] \<Rightarrow> options\<lparr>type := None\<rparr>
      | v # rest' \<Rightarrow> parseLoop (options\<lparr>type := Some v\<rparr>) rest')"
  by simp

lemma parseLoop_input:
  "arg = ''--input'' \<or> arg = ''-i'' \<Longrightarrow>
   parseLoop options (arg # rest) =
     (case rest of [] \<Rightarrow> options\<lparr>input := None\<rparr>
      | v # rest' \<Rightarrow> parseLoop (options\<lparr>input := Some v\<rparr>) rest')"
  by auto

lemma parseLoop_output:
  "arg = ''--output'' \<or> arg = ''-o'' \<Longrightarrow>
   parseLoop options (arg # rest) =
     (case rest of [] \<Rightarrow> options\<lparr>output := None\<rparr>
      | v # rest' \<Rightarrow> parseLoop (options\<lparr>output := Some v\<rparr>) rest')"
  by auto

lemma parseLoop_no_daily_table:
  "parseLoop options (''--no-daily-table'' # rest) =
     parseLoop (options\<lparr>includeDailyTable := False\<rparr>) rest"
  by simp

lemma parseLoop_help:
  "arg = ''--help'' \<or> arg = ''-h'' \<Longrightarrow>
   parseLoop options (arg # rest) = parseLoop (options\<lparr>help := True\<rparr>) rest"
  by auto

lemma parseLoop_default:
  "arg \<notin> set knownFlags \<Longrightarrow>
   parseLoop options (arg # rest) =
     parseLoop
       (if \<not> truthy (input options) \<and> \<not> startsWith arg ''--'' then options\<lparr>input := Some arg\<rparr>
        else if \<not> truthy (output options) \<and> \<not> startsWith arg ''--'' then options\<lparr>output := Some arg\<rparr>
        else options) rest"
  by (simp add: knownFlags_def)

declare parseLoop.simps(2) [simp del]

lemma token_cases [case_names type_flag input_flag output_flag no_daily_table help_flag default]:
  obtains "arg = ''--type'' \<or> arg = ''-t''"
        | "arg = ''--input'' \<or> arg = ''-i''"
        | "arg = ''--output'' \<or> arg = ''-o''"
        | "arg = ''--no-daily-table''"
        | "arg = ''--help'' \<or> arg = ''-h''"
        | "arg \<notin> set knownFlags"
  unfolding knownFlags_def by auto

lemma valueFlags_iff:
  "arg \<in> set valueFlags \<longleftrightarrow>
     (arg = ''--type'' \<or> arg = ''-t'') \<or> (arg = ''--input'' \<or> arg = ''-i'') \<or>
     (arg = ''--output'' \<or> arg = ''-o'')"
  by (auto simp: valueFlags_def)

lemma loop_induct [case_names Nil type_last type_value input_last input_value output_last
    output_value no_daily_table help_flag default]:
  assumes "\<And>options. P options []"
    and "\<And>options arg. arg = ''--type'' \<or> arg = ''-t'' \<Longrightarrow> arg \<in> set valueFlags \<Longrightarrow>
           P options [arg]"
    and "\<And>options arg v rest. arg = ''--type'' \<or> arg = ''-t'' \<Longrightarrow> arg \<in> set valueFlags \<Longrightarrow>
           (\<And>options'. P options' rest) \<Longrightarrow> P options (arg # v # rest)"
    and "\<And>options arg. arg = ''--input'' \<or> arg = ''-i'' \<Longrightarrow> arg \<in> set valueFlags \<Longrightarrow>
           P options [arg]"
    and "\<And>options arg v rest. arg = ''--input'' \<or> arg = ''-i'' \<Longrightarrow> arg \<in> set valueFlags \<Longrightarrow>
           (\<And>options'. P options' rest) \<Longrightarrow> P options (arg # v # rest)"
    and "\<And>options arg. arg = ''--output'' \<or> arg = ''-o'' \<Longrightarrow> arg \<in> set valueFlags \<Longrightarrow>
           P options [arg]"
    and "\<And>options arg v rest. arg = ''--output'' \<or> arg = ''-o'' \<Longrightarrow> arg \<in> set valueFlags \<Longrightarrow>
           (\<And>options'. P options' rest) \<Longrightarrow> P options (arg # v # rest)"
    and "\<And>options arg rest. arg = ''--no-daily-table'' \<Longrightarrow> arg \<notin> set valueFlags \<Longrightarrow>
           (\<And>options'. P options' rest) \<Longrightarrow> P options (arg # rest)"
    and "\<And>options arg rest. arg = ''--help'' \<or> arg = ''-h'' \<Longrightarrow> arg \<notin> set valueFlags \<Longrightarrow>
           (\<And>options'. P options' rest) \<Longrightarrow> P options (arg # rest)"
    and "\<And>options arg rest. arg \<notin> set knownFlags \<Longrightarrow> arg \<notin> set valueFlags \<Longrightarrow>
           (\<And>options'. P options' rest) \<Longrightarrow> P options (arg # rest)"
  shows "P options args"
proof (induction args arbitrary: options rule: atSwitch.induct)
  case 1
  show ?case by (rule assms(1))
next
  case (2 arg rest)
  show ?case
  proof (cases arg rule: token_cases)
    case type_flag
    then have v: "arg \<in> set valueFlags" by (simp add: valueFlags_iff)
    show ?thesis
    proof (cases rest)
      case Nil
      with type_flag v show ?thesis by (simp add: assms(2))
    next
      case (Cons v rest')
      have "\<And>options'. P options' rest'" using 2(1) [OF v Cons] .
      with type_flag v Cons show ?thesis by (simp add: assms(3))
    qed
  next
    case input_flag
    then have v: "arg \<in> set valueFlags" by (simp add: valueFlags_iff)
    show ?thesis
    proof (cases rest)
      case Nil
      with input_flag v show ?thesis by (simp add: assms(4))
    next
      case (Cons v rest')
      have "\<And>options'. P options' rest'" using 2(1) [OF v Cons] .
      with input_flag v Cons show ?thesis by (simp add: assms(5))
    qed
  next
    case output_flag
    then have v: "arg \<in> set valueFlags" by (simp add: valueFlags_iff)
    show ?thesis
    proof (cases rest)
      case Nil
      with output_flag v show ?thesis by (simp add: assms(6))
    next
      case (Cons v rest')
      have "\<And>options'. P options' rest'" using 2(1) [OF v Cons] .
      with output_flag v Cons show ?thesis by (simp add: assms(7))
    qed
  next
    case no_daily_table
    then have nv: "arg \<notin> set valueFlags" by (simp add: valueFlags_iff)
    then have "\<And>options'. P options' rest" using 2(2) by simp
    with no_daily_table nv show ?thesis by (simp add: assms(8))
  next
    case help_flag
    then have nv: "arg \<notin> set valueFlags" by (auto simp: valueFlags_iff)
    then have "\<And>options'. P options' rest" using 2(2) by simp
    with help_flag nv show ?thesis by (simp add: assms(9))
  next
    case default
    then have nv: "arg \<notin> set valueFlags" by (simp add: valueFlags_def knownFlags_def)
    then have "\<And>options'. P options' rest" using 2(2) by simp
    with default nv show ?thesis by (simp add: assms(10))
  qed
qed


lemmas parseLoop_rules =
  parseLoop_type parseLoop_input parseLoop_output parseLoop_no_daily_table parseLoop_help
  parseLoop_default

text \<open>
  When the index reaches the end of a prefix, the loop on the whole list is the loop on the
  prefix followed by the loop on the rest.
\<close>

lemma parseLoop_append:
  "atSwitch pre \<Longrightarrow> parseLoop options (pre @ rest) = parseLoop (parseLoop options pre) rest"
  by (induction options pre rule: loop_induct) (simp_all add: parseLoop_rules)

lemma set_switchTokens: "set (switchTokens args) \<subseteq> set args"
proof (induction args rule: switchTokens.induct)
  case 1
  show ?case by simp
next
  case (2 arg rest)
  show ?case
  proof (cases "arg \<in> set valueFlags")
    case True
    with 2(1) show ?thesis by (cases rest) auto
  next
    case False
    with 2(2) show ?thesis by auto
  qed
qed

text \<open>
  The two ways of naming a position agree: the tokens that the \<open>switch\<close> is run on are the
  tokens that stand right after a prefix which the index reaches the end of.
\<close>

lemma switchTokens_atSwitch:
  "atSwitch pre \<Longrightarrow> switchTokens (pre @ rest) = switchTokens pre @ switchTokens rest"
proof (induction pre rule: atSwitch.induct)
  case 1
  show ?case by simp
next
  case (2 arg rest')
  show ?case
  proof (cases "arg \<in> set valueFlags")
    case True
    with 2 show ?thesis by (cases rest') simp_all
  next
    case False
    with 2 show ?thesis by simp
  qed
qed

lemma switchTokens_Cons: "switchTokens (tok # rest) \<noteq> [] \<and> hd (switchTokens (tok # rest)) = tok"
  by (cases rest) simp_all

lemma in_switchTokens_if:
  assumes "atSwitch pre"
  shows "tok \<in> set (switchTokens (pre @ tok # rest))"
proof -
  have "tok \<in> set (switchTokens (tok # rest))"
    using switchTokens_Cons [of tok rest] by (cases "switchTokens (tok # rest)") auto
  with assms show ?thesis by (simp add: switchTokens_atSwitch)
qed

lemma in_switchTokens_only_if:
  "tok \<in> set (switchTokens args) \<Longrightarrow> \<exists>pre rest. args = pre @ tok # rest \<and> atSwitch pre"
proof (induction args rule: switchTokens.induct)
  case 1
  then show ?case by simp
next
  case (2 arg rest)
  show ?case
  proof (cases "tok = arg")
    case True
    then have "arg # rest = [] @ tok # rest \<and> atSwitch []" by simp
    then show ?thesis by blast
  next
    case False
    show ?thesis
    proof (cases "arg \<in> set valueFlags")
      case True
      show ?thesis
      proof (cases rest)
        case Nil
        with True False 2(3) show ?thesis by simp
      next
        case (Cons v rest')
        with True False 2(3) have "tok \<in> set (switchTokens rest')" by simp
        from 2(1) [OF True Cons this] obtain pre r where "rest' = pre @ tok # r" "atSwitch pre"
          by blast
        with True Cons have "arg # rest = (arg # v # pre) @ tok # r \<and> atSwitch (arg # v # pre)"
          by simp
        then show ?thesis by blast
      qed
    next
      case nv: False
      with False 2(3) have "tok \<in> set (switchTokens rest)" by simp
      from 2(2) [OF nv this] obtain pre r where "rest = pre @ tok # r" "atSwitch pre"
        by blast
      with nv have "arg # rest = (arg # pre) @ tok # r \<and> atSwitch (arg # pre)" by simp
      then show ?thesis by blast
    qed
  qed
qed

lemma switchTokens_iff:
  "tok \<in> set (switchTokens args) \<longleftrightarrow> (\<exists>pre rest. args = pre @ tok # rest \<and> atSwitch pre)"
  using in_switchTokens_if in_switchTokens_only_if by blast


text \<open>The two booleans record exactly which flags the \<open>switch\<close> has seen.\<close>

lemma help_parseLoop:
  "help (parseLoop options args) =
     (help options \<or> ''--help'' \<in> set (switchTokens args) \<or> ''-h'' \<in> set (switchTokens args))"
proof (induction options args rule: loop_induct)
  case (default options arg rest)
  then show ?case by (auto simp add: parseLoop_default knownFlags_def)
next
  case (help_flag options arg rest)
  then show ?case by (auto simp add: parseLoop_help)
qed (simp_all add: parseLoop_rules, auto)

lemma not_no_daily_table:
  "arg \<in> set valueFlags \<Longrightarrow> ''--no-daily-table'' \<noteq> arg"
  "arg = ''--help'' \<or> arg = ''-h'' \<Longrightarrow> ''--no-daily-table'' \<noteq> arg"
  "arg \<notin> set knownFlags \<Longrightarrow> ''--no-daily-table'' \<noteq> arg"
  by (auto simp: valueFlags_def knownFlags_def)

lemma includeDailyTable_parseLoop:
  "includeDailyTable (parseLoop options args) =
     (includeDailyTable options \<and> ''--no-daily-table'' \<notin> set (switchTokens args))"
  by (induction options args rule: loop_induct)
     (simp_all add: parseLoop_rules not_no_daily_table)

section \<open>Facts about validation\<close>

lemma validate_Inr:
  "validate env options = Inr config \<Longrightarrow>
     \<not> help options \<and> truthy (input options) \<and> truthy (type options) \<and>
     includes' [''heart'', ''sleep'', ''medication''] (type options) \<and>
     inputExists env (input options) \<and>
     config = (if truthy (output options) then options
               else options\<lparr>output := typeNameOf (type options)\<rparr>)"
  by (simp add: validate_def split: if_splits)

lemma configure_Inr:
  "configure env args = Inr config \<Longrightarrow>
     \<not> helpRequested args \<and> validate env (parseLoop initialOptions args) = Inr config"
  by (simp add: configure_def parse_def split: if_splits)

lemma typeNameOf_simps:
  "typeNameOf (Some ''heart'') = Some ''herzfrequenz-bericht.pdf''"
  "typeNameOf (Some ''sleep'') = Some ''schlaf-bericht.pdf''"
  "typeNameOf (Some ''medication'') = Some ''medikation-bericht.pdf''"
  by (simp_all add: typeNameOf_def typeNames_def)

lemma includes_types:
  "includes' [''heart'', ''sleep'', ''medication''] t \<longleftrightarrow>
     t = Some ''heart'' \<or> t = Some ''sleep'' \<or> t = Some ''medication''"
  by (cases t) (auto simp: includes'_def)

section \<open>Facts about whole runs\<close>

lemma parse_Some:
  "parse args = Some options \<longleftrightarrow> \<not> helpRequested args \<and> options = parseLoop initialOptions args"
  by (auto simp: parse_def)

lemma parse_no_help: "parse args = Some options \<Longrightarrow> \<not> help options"
proof -
  assume p: "parse args = Some options"
  then have "\<not> helpRequested args" and o: "options = parseLoop initialOptions args"
    by (simp_all add: parse_Some)
  then have "''--help'' \<notin> set args" "''-h'' \<notin> set args"
    by (simp_all add: helpRequested_def)
  with set_switchTokens [of args]
  have "''--help'' \<notin> set (switchTokens args)" "''-h'' \<notin> set (switchTokens args)"
    by auto
  with o show ?thesis by (simp add: help_parseLoop initialOptions_def)
qed

lemma validate_Inl_no_help:
  "validate env options = Inl r \<Longrightarrow> \<not> help options \<Longrightarrow>
     ending r = Exited 1 \<and> filter isCall (events r) = []"
  by (auto simp: validate_def split: if_splits)

lemma main_parse_Some:
  "parse args = Some options \<Longrightarrow>
   main env args = (case validate env options of Inl r \<Rightarrow> r | Inr config \<Rightarrow> dispatch env config)"
  by (simp add: main_def configure_def)

lemma validate_input_unset:
  "\<not> help options \<Longrightarrow> input options = None \<Longrightarrow>
   validate env options =
     Inl \<lparr>events = [ConsoleError InputRequired, PrintUsage], ending = Exited 1\<rparr>"
  by (simp add: validate_def truthy_def)

lemma validate_type_unset:
  "\<not> help options \<Longrightarrow> type options = None \<Longrightarrow>
   validate env options =
     (if truthy (input options)
      then Inl \<lparr>events = [ConsoleError TypeRequired, PrintUsage], ending = Exited 1\<rparr>
      else Inl \<lparr>events = [ConsoleError InputRequired, PrintUsage], ending = Exited 1\<rparr>)"
  by (simp add: validate_def truthy_def)

lemma validate_output_unset:
  "output options = None \<Longrightarrow> validate env options = Inr config \<Longrightarrow>
   output config = typeNameOf (type config)"
  by (auto simp: truthy_def dest!: validate_Inr)

lemma isCall_statusBlock: "filter isCall (statusBlock config) = []"
  by (simp add: statusBlock_def)

text \<open>The short flags start with one dash only, so a token that starts with two is none of them.\<close>

lemma short_flags_single_dash:
  "\<not> startsWith ''-t'' ''--''" "\<not> startsWith ''-i'' ''--''"
  "\<not> startsWith ''-o'' ''--''" "\<not> startsWith ''-h'' ''--''"
  by (simp_all add: startsWith_def)

lemma long_not_known:
  assumes "startsWith tok ''--''"
    and "tok \<notin> {''--type'', ''--input'', ''--output'', ''--no-daily-table'', ''--help''}"
  shows "tok \<notin> set knownFlags"
  using assms short_flags_single_dash by (auto simp: knownFlags_def)

text \<open>Concrete runs in the sample world.\<close>

lemma sample_parse:
  "parseLoop initialOptions [''--type'', ''heart'', ''--input'', ''export.xml''] =
     \<lparr>type = Some ''heart'', input = Some ''export.xml'', output = None,
      includeDailyTable = True, help = False\<rparr>"
  by (simp add: parseLoop_rules initialOptions_def)

lemma sample_configure:
  "configure sampleEnv [''--type'', ''heart'', ''--input'', ''export.xml''] =
     Inr \<lparr>type = Some ''heart'', input = Some ''export.xml'',
          output = Some ''herzfrequenz-bericht.pdf'', includeDailyTable = True, help = False\<rparr>"
  by (simp add: configure_def parse_def helpRequested_def sample_parse validate_def truthy_def
      includes'_def inputExists_def sampleEnv_def sampleExists_def typeNameOf_simps)

lemma bogus_parse:
  "parse [''--type'', ''bogus'', ''--input'', ''export.xml''] =
     Some \<lparr>type = Some ''bogus'', input = Some ''export.xml'', output = None,
           includeDailyTable = True, help = False\<rparr>"
  by (simp add: parse_def helpRequested_def parseLoop_rules initialOptions_def)


lemma sleep_configure:
  "configure sampleEnv [''-i'', ''export.xml'', ''-t'', ''sleep'', ''-o'', ''night.pdf''] =
     Inr \<lparr>type = Some ''sleep'', input = Some ''export.xml'', output = Some ''night.pdf'',
          includeDailyTable = True, help = False\<rparr>"
  by (simp add: configure_def parse_def helpRequested_def parseLoop_rules initialOptions_def
      validate_def truthy_def includes'_def inputExists_def sampleEnv_def sampleExists_def)

lemma quiet_configure:
  "configure sampleEnv [''--type'', ''heart'', ''--no-daily-table'', ''--input'', ''export.xml''] =
     Inr \<lparr>type = Some ''heart'', input = Some ''export.xml'',
          output = Some ''herzfrequenz-bericht.pdf'', includeDailyTable = False, help = False\<rparr>"
  by (simp add: configure_def parse_def helpRequested_def parseLoop_rules initialOptions_def
      validate_def truthy_def includes'_def inputExists_def sampleEnv_def sampleExists_def
      typeNameOf_simps)

lemma dashed_value_parse:
  "parse ([''--type'', ''heart''] @ ''--input'' # [''--no-daily-table'']) =
     Some \<lparr>type = Some ''heart'', input = Some ''--no-daily-table'', output = None,
           includeDailyTable = True, help = False\<rparr>"
  by (simp add: parse_def helpRequested_def parseLoop_rules initialOptions_def)

lemma missing_value_parse:
  "parse ([''--type'', ''heart''] @ ''--input'' # []) =
     Some \<lparr>type = Some ''heart'', input = None, output = None,
           includeDailyTable = True, help = False\<rparr>"
  by (simp add: parse_def helpRequested_def parseLoop_rules initialOptions_def)

lemma legacy_parse:
  "parse ([''--type'', ''heart''] @ ''export.xml'' # [''report.pdf'']) =
     Some \<lparr>type = Some ''heart'', input = Some ''export.xml'', output = Some ''report.pdf'',
           includeDailyTable = True, help = False\<rparr>"
  by (simp add: parse_def helpRequested_def parseLoop_type parseLoop_default knownFlags_def
      initialOptions_def truthy_def startsWith_def)

section \<open>Help\<close>

text \<open>
  C2. An argument list that is empty, or that holds \<open>--help\<close> or \<open>-h\<close> at any position, makes
  the program print the usage text and exit with code 0, and nothing else: no error line, no
  exporter call, whatever the other tokens, the filesystem and the exporters are.
\<close>

theorem help_prints_usage_and_exits_0:
  "args = [] \<or> ''--help'' \<in> set args \<or> ''-h'' \<in> set args \<Longrightarrow>
   main env args = \<lparr>events = [PrintUsage], ending = Exited 0\<rparr>"
  by (simp add: main_def configure_def parse_def helpRequested_def)

theorem help_prints_usage_and_exits_0_witness:
  "''-h'' \<in> set [''--type'', ''bogus'', ''--input'', ''-h''] \<and>
   main sampleEnv [''--type'', ''bogus'', ''--input'', ''-h''] =
     \<lparr>events = [PrintUsage], ending = Exited 0\<rparr>"
  using help_prints_usage_and_exits_0 [of "[''--type'', ''bogus'', ''--input'', ''-h'']" sampleEnv]
  by simp

text \<open>
  C10. A run that gets to the help test after the loop has \<open>options.help\<close> false there, so
  the \<open>process.exit(0)\<close> of line 90 is never reached: such a run does not end in a call of
  \<open>process.exit(0)\<close> at all. Every call of \<open>process.exit(0)\<close> is the one of line 46.
\<close>

theorem post_loop_help_unreachable:
  assumes "parse args = Some options"
  shows "\<not> help options \<and> ending (main env args) \<noteq> Exited 0"
proof -
  have h: "\<not> help options" by (rule parse_no_help [OF assms])
  have "ending (main env args) \<noteq> Exited 0"
  proof (cases "validate env options")
    case (Inl r)
    with validate_Inl_no_help [OF Inl h] show ?thesis
      by (simp add: main_parse_Some [OF assms])
  next
    case (Inr config)
    then show ?thesis
      by (auto simp: main_parse_Some [OF assms] dispatch_def Let_def
          split: option.splits outcome.splits)
  qed
  with h show ?thesis by simp
qed

theorem post_loop_help_unreachable_witness:
  "parse [''--type'', ''bogus'', ''--input'', ''export.xml''] =
     Some \<lparr>type = Some ''bogus'', input = Some ''export.xml'', output = None,
           includeDailyTable = True, help = False\<rparr> \<and>
   ending (main sampleEnv [''--type'', ''bogus'', ''--input'', ''export.xml'']) \<noteq> Exited 0"
  using post_loop_help_unreachable [OF bogus_parse, of sampleEnv] bogus_parse by simp

section \<open>The validated configuration\<close>

text \<open>
  C1. When the process does not exit before dispatch, the record \<open>config\<close> has a \<open>type\<close> that
  is one of \<open>heart\<close>, \<open>sleep\<close>, \<open>medication\<close>, an \<open>input\<close> that is a non-empty string for which
  \<open>existsSync\<close> answered true, and an \<open>output\<close> that is a non-empty string: the one the loop
  left there, or the default of the type.
\<close>

theorem config_invariant:
  assumes "configure env args = Inr config"
  shows "type config \<in> {Some ''heart'', Some ''sleep'', Some ''medication''} \<and>
     (\<exists>p. input config = Some p \<and> p \<noteq> [] \<and> existsSync env p) \<and>
     (\<exists>out. output config = Some out \<and> out \<noteq> [] \<and>
        (output config = output (parseLoop initialOptions args) \<or>
         output config = typeNameOf (type config)))"
proof -
  let ?options = "parseLoop initialOptions args"
  from assms have v: "validate env ?options = Inr config"
    by (simp add: configure_Inr)
  note facts = validate_Inr [OF v]
  from facts have ty: "type ?options = Some ''heart'' \<or> type ?options = Some ''sleep'' \<or>
      type ?options = Some ''medication''"
    by (simp add: includes_types)
  from facts have tc: "type config = type ?options" and ic: "input config = input ?options"
    by (simp_all split: if_splits)
  from facts obtain p where p: "input ?options = Some p" "p \<noteq> []" "existsSync env p"
    by (cases "input ?options") (auto simp: truthy_def inputExists_def)
  have out: "\<exists>out. output config = Some out \<and> out \<noteq> [] \<and>
        (output config = output ?options \<or> output config = typeNameOf (type config))"
  proof (cases "truthy (output ?options)")
    case True
    with facts have "config = ?options" by simp
    with True show ?thesis by (cases "output ?options") (auto simp: truthy_def)
  next
    case False
    with facts have "output config = typeNameOf (type ?options)" by simp
    with ty tc show ?thesis by (auto simp: typeNameOf_simps)
  qed
  from ty tc ic p out show ?thesis by auto
qed

theorem config_invariant_witness:
  "configure sampleEnv [''--type'', ''heart'', ''--input'', ''export.xml''] =
     Inr \<lparr>type = Some ''heart'', input = Some ''export.xml'',
          output = Some ''herzfrequenz-bericht.pdf'', includeDailyTable = True, help = False\<rparr> \<and>
   existsSync sampleEnv ''export.xml'' \<and>
   typeNameOf (Some ''heart'') = Some ''herzfrequenz-bericht.pdf''"
  using config_invariant [OF sample_configure] sample_configure
  by (simp add: typeNameOf_simps)

text \<open>
  C5. In a run that gets to the loop, when the parsed type is one of \<open>heart\<close>, \<open>sleep\<close>,
  \<open>medication\<close>, the parsed input is a non-empty path that exists, and the loop has left
  \<open>output\<close> unset (no \<open>--output\<close> or \<open>-o\<close> value and no positional output), validation passes
  and the only field it changes is \<open>output\<close>, which becomes \<open>typeNames[type]\<close> for the
  parsed type: a constant that depends on the type only, and the three constants differ from
  one another.
\<close>

theorem default_output_by_type:
  assumes "parse args = Some options"
    and "type options = Some t"
    and "t \<in> {''heart'', ''sleep'', ''medication''}"
    and "input options = Some p"
    and "p \<noteq> []"
    and "existsSync env p"
    and "\<not> truthy (output options)"
  shows "configure env args = Inr (options\<lparr>output := typeNameOf (Some t)\<rparr>) \<and>
     typeNameOf (Some t) =
       Some (if t = ''heart'' then ''herzfrequenz-bericht.pdf''
             else if t = ''sleep'' then ''schlaf-bericht.pdf''
             else ''medikation-bericht.pdf'') \<and>
     distinct (map snd typeNames)"
proof -
  from assms(1) have c: "configure env args = validate env options"
    by (simp add: configure_def)
  have h: "\<not> help options" by (rule parse_no_help [OF assms(1)])
  from assms(2,3) have ty: "truthy (type options)"
    and inc: "includes' [''heart'', ''sleep'', ''medication''] (type options)"
    by (auto simp: truthy_def includes'_def)
  from assms(4,5,6) have inp: "truthy (input options)" and ex: "inputExists env (input options)"
    by (simp_all add: truthy_def inputExists_def)
  from h ty inc inp ex assms(7)
  have "validate env options = Inr (options\<lparr>output := typeNameOf (type options)\<rparr>)"
    by (simp add: validate_def)
  with c assms(2)
  have assigned: "configure env args = Inr (options\<lparr>output := typeNameOf (Some t)\<rparr>)"
    by simp
  from assms(3) have name: "typeNameOf (Some t) =
       Some (if t = ''heart'' then ''herzfrequenz-bericht.pdf''
             else if t = ''sleep'' then ''schlaf-bericht.pdf''
             else ''medikation-bericht.pdf'')"
    by (auto simp: typeNameOf_simps)
  have "distinct (map snd typeNames)" by (simp add: typeNames_def)
  with assigned name show ?thesis by blast
qed

theorem default_output_by_type_witness:
  "parse [''-t'', ''sleep'', ''-i'', ''export.xml''] =
     Some \<lparr>type = Some ''sleep'', input = Some ''export.xml'', output = None,
           includeDailyTable = True, help = False\<rparr> \<and>
   ''sleep'' \<in> {''heart'', ''sleep'', ''medication''} \<and>
   existsSync sampleEnv ''export.xml'' \<and>
   \<not> truthy None \<and>
   configure sampleEnv [''-t'', ''sleep'', ''-i'', ''export.xml''] =
     Inr \<lparr>type = Some ''sleep'', input = Some ''export.xml'',
          output = Some ''schlaf-bericht.pdf'', includeDailyTable = True, help = False\<rparr> \<and>
   distinct (map snd typeNames)"
proof -
  let ?options = "\<lparr>type = Some ''sleep'', input = Some ''export.xml'', output = None,
           includeDailyTable = True, help = False\<rparr>"
  have p: "parse [''-t'', ''sleep'', ''-i'', ''export.xml''] = Some ?options"
    by (simp add: parse_def helpRequested_def parseLoop_rules initialOptions_def)
  have ty: "type ?options = Some ''sleep''" by simp
  have t: "''sleep'' \<in> {''heart'', ''sleep'', ''medication''}" by simp
  have i: "input ?options = Some ''export.xml''" by simp
  have n: "''export.xml'' \<noteq> []" by simp
  have e: "existsSync sampleEnv ''export.xml''" by (simp add: sampleEnv_def sampleExists_def)
  have u: "\<not> truthy (output ?options)" by (simp add: truthy_def)
  from default_output_by_type [OF p ty t i n e u] p t e
  show ?thesis by (simp add: truthy_def typeNameOf_simps)
qed

section \<open>An invalid type\<close>

text \<open>
  C3. When the type that the loop parsed is set but is not one of \<open>heart\<close>, \<open>sleep\<close>,
  \<open>medication\<close>, the process exits with code 1 and no exporter is called.
\<close>

theorem invalid_type_never_exports:
  assumes "parse args = Some options"
    and "type options = Some t"
    and "t \<notin> {''heart'', ''sleep'', ''medication''}"
  shows "ending (main env args) = Exited 1 \<and> filter isCall (events (main env args)) = []"
proof -
  from assms(2,3) have "\<not> includes' [''heart'', ''sleep'', ''medication''] (type options)"
    by (simp add: includes'_def)
  then obtain r where r: "validate env options = Inl r"
    using validate_Inr [of env options] by (cases "validate env options") auto
  from validate_Inl_no_help [OF r parse_no_help [OF assms(1)]] r
  show ?thesis by (simp add: main_parse_Some [OF assms(1)])
qed

theorem invalid_type_never_exports_witness:
  "parse [''--type'', ''bogus'', ''--input'', ''export.xml''] =
     Some \<lparr>type = Some ''bogus'', input = Some ''export.xml'', output = None,
           includeDailyTable = True, help = False\<rparr> \<and>
   ''bogus'' \<notin> {''heart'', ''sleep'', ''medication''} \<and>
   ending (main sampleEnv [''--type'', ''bogus'', ''--input'', ''export.xml'']) = Exited 1 \<and>
   filter isCall (events (main sampleEnv [''--type'', ''bogus'', ''--input'', ''export.xml''])) = []"
proof -
  have t: "''bogus'' \<notin> {''heart'', ''sleep'', ''medication''}" by simp
  from invalid_type_never_exports [OF bogus_parse _ t, of sampleEnv] bogus_parse t
  show ?thesis by simp
qed



section \<open>The loop, token by token\<close>

text \<open>
  C4, as written, fails: a token that does not start with \<open>--\<close> is not always taken as
  \<open>input\<close> or \<open>output\<close>. In \<open>-t heart\<close> neither token starts with \<open>--\<close> and \<open>input\<close> is unset
  when the loop meets them, yet \<open>-t\<close> is read as the type flag and \<open>heart\<close> as its value;
  \<open>input\<close> stays unset and the run ends with the error that \<open>--input\<close> is required.
\<close>

theorem positional_counterexample:
  "\<not> startsWith ''-t'' ''--'' \<and> \<not> startsWith ''heart'' ''--'' \<and>
   parse [''-t'', ''heart''] =
     Some \<lparr>type = Some ''heart'', input = None, output = None,
           includeDailyTable = True, help = False\<rparr> \<and>
   main sampleEnv [''-t'', ''heart''] =
     \<lparr>events = [ConsoleError InputRequired, PrintUsage], ending = Exited 1\<rparr>"
  by (simp add: startsWith_def main_def configure_def parse_def helpRequested_def
      parseLoop_rules initialOptions_def validate_def truthy_def)

text \<open>
  C4, amended. A token that the \<open>switch\<close> is run on (it is not the value read by a
  value-taking flag before it), that is none of the nine flag spellings and that does not start
  with \<open>--\<close>, is assigned to \<open>input\<close> when \<open>input\<close> is falsy at that point (undefined or the
  empty string), otherwise to \<open>output\<close> when \<open>output\<close> is falsy at that point, and is dropped
  otherwise; the loop then goes on with the next token. Here \<open>pre\<close> are the tokens before it,
  \<open>rest\<close> the tokens after it, and \<open>options\<close> the record that the loop ends with.
\<close>

theorem positional_fallback:
  assumes "atSwitch pre"
    and "arg \<notin> set knownFlags"
    and "\<not> startsWith arg ''--''"
    and "parse (pre @ arg # rest) = Some options"
  shows "options =
     parseLoop
       (if \<not> truthy (input (parseLoop initialOptions pre)) then
          (parseLoop initialOptions pre)\<lparr>input := Some arg\<rparr>
        else if \<not> truthy (output (parseLoop initialOptions pre)) then
          (parseLoop initialOptions pre)\<lparr>output := Some arg\<rparr>
        else parseLoop initialOptions pre) rest"
proof -
  from assms(4) have "options = parseLoop initialOptions (pre @ arg # rest)"
    by (simp add: parse_Some)
  with assms(1,2,3) show ?thesis
    by (simp add: parseLoop_append parseLoop_default)
qed

theorem positional_fallback_witness:
  "atSwitch [''--type'', ''heart''] \<and> ''export.xml'' \<notin> set knownFlags \<and>
   \<not> startsWith ''export.xml'' ''--'' \<and>
   parse [''--type'', ''heart'', ''export.xml'', ''report.pdf''] =
     Some \<lparr>type = Some ''heart'', input = Some ''export.xml'', output = Some ''report.pdf'',
           includeDailyTable = True, help = False\<rparr> \<and>
   parseLoop ((parseLoop initialOptions [''--type'', ''heart''])\<lparr>input := Some ''export.xml''\<rparr>)
       [''report.pdf''] =
     \<lparr>type = Some ''heart'', input = Some ''export.xml'', output = Some ''report.pdf'',
      includeDailyTable = True, help = False\<rparr>"
proof -
  have a: "atSwitch [''--type'', ''heart'']" by (simp add: valueFlags_def)
  have k: "''export.xml'' \<notin> set knownFlags" by (simp add: knownFlags_def)
  have s: "\<not> startsWith ''export.xml'' ''--''" by (simp add: startsWith_def)
  have u: "\<not> truthy (input (parseLoop initialOptions [''--type'', ''heart'']))"
    by (simp add: parseLoop_type initialOptions_def truthy_def)
  from positional_fallback [OF a k s legacy_parse] u a k s legacy_parse
  show ?thesis by simp
qed

text \<open>
  C8, as written, fails: the token after a value-taking flag can still be read as a flag.
  In \<open>--input --help\<close> the token after \<open>--input\<close> is seen by the test of line 44, the usage
  text is printed and the process exits with code 0; the loop never runs and nothing is
  assigned to \<open>input\<close>.
\<close>

theorem value_flag_counterexample:
  "parse [''--input'', ''--help''] = None \<and>
   main sampleEnv [''--input'', ''--help''] = \<lparr>events = [PrintUsage], ending = Exited 0\<rparr>"
  by (simp add: main_def configure_def parse_def helpRequested_def)

text \<open>
  C8, amended. In a run that gets to the loop (the list is not empty and holds neither
  \<open>--help\<close> nor \<open>-h\<close>), when the \<open>switch\<close> is run on a value-taking flag, the next token is
  assigned to the field of that flag whatever it looks like, and the loop goes on after it; the
  token is not looked at again. When the flag is the last token, the field is assigned
  \<open>undefined\<close> and validation takes it as unset: a run with \<open>type\<close> or \<open>input\<close> unset exits
  with code 1 after the error line for the missing option and the usage text, and an unset
  \<open>output\<close> gets the default name of the type if the run gets to dispatch.
\<close>

theorem value_flag_consumes_next:
  assumes "atSwitch pre"
    and "parse (pre @ flag # rest) = Some options"
  shows
    "(flag = ''--type'' \<or> flag = ''-t'' \<longrightarrow>
        (case rest of
           [] \<Rightarrow>
             options = (parseLoop initialOptions pre)\<lparr>type := None\<rparr> \<and>
             ending (main env (pre @ flag # rest)) = Exited 1 \<and>
             events (main env (pre @ flag # rest)) \<in>
               {[ConsoleError InputRequired, PrintUsage], [ConsoleError TypeRequired, PrintUsage]}
         | v # rest' \<Rightarrow>
             options = parseLoop ((parseLoop initialOptions pre)\<lparr>type := Some v\<rparr>) rest')) \<and>
     (flag = ''--input'' \<or> flag = ''-i'' \<longrightarrow>
        (case rest of
           [] \<Rightarrow>
             options = (parseLoop initialOptions pre)\<lparr>input := None\<rparr> \<and>
             main env (pre @ flag # rest) =
               \<lparr>events = [ConsoleError InputRequired, PrintUsage], ending = Exited 1\<rparr>
         | v # rest' \<Rightarrow>
             options = parseLoop ((parseLoop initialOptions pre)\<lparr>input := Some v\<rparr>) rest')) \<and>
     (flag = ''--output'' \<or> flag = ''-o'' \<longrightarrow>
        (case rest of
           [] \<Rightarrow>
             options = (parseLoop initialOptions pre)\<lparr>output := None\<rparr> \<and>
             (\<forall>config. configure env (pre @ flag # rest) = Inr config \<longrightarrow>
                output config = typeNameOf (type config))
         | v # rest' \<Rightarrow>
             options = parseLoop ((parseLoop initialOptions pre)\<lparr>output := Some v\<rparr>) rest'))"
proof -
  let ?seen = "parseLoop initialOptions pre"
  let ?args = "pre @ flag # rest"
  from assms(2) have "options = parseLoop initialOptions ?args"
    by (simp add: parse_Some)
  with assms(1) have o: "options = parseLoop ?seen (flag # rest)"
    by (simp add: parseLoop_append)
  have h: "\<not> help options" by (rule parse_no_help [OF assms(2)])
  note m = main_parse_Some [OF assms(2), of env]
  have c: "configure env ?args = validate env options"
    using assms(2) by (simp add: configure_def)
  have type_last:
    "options = ?seen\<lparr>type := None\<rparr> \<and> ending (main env ?args) = Exited 1 \<and>
     events (main env ?args) \<in>
       {[ConsoleError InputRequired, PrintUsage], [ConsoleError TypeRequired, PrintUsage]}"
    if "flag = ''--type'' \<or> flag = ''-t''" "rest = []"
  proof -
    from o that have eq: "options = ?seen\<lparr>type := None\<rparr>" by (simp add: parseLoop_type)
    then have "type options = None" by simp
    from validate_type_unset [OF h this, of env] eq show ?thesis by (simp add: m)
  qed
  have type_value: "options = parseLoop (?seen\<lparr>type := Some v\<rparr>) rest'"
    if "flag = ''--type'' \<or> flag = ''-t''" "rest = v # rest'" for v rest'
    using o that by (simp add: parseLoop_type)
  have input_last:
    "options = ?seen\<lparr>input := None\<rparr> \<and>
     main env ?args = \<lparr>events = [ConsoleError InputRequired, PrintUsage], ending = Exited 1\<rparr>"
    if "flag = ''--input'' \<or> flag = ''-i''" "rest = []"
  proof -
    from o that have eq: "options = ?seen\<lparr>input := None\<rparr>" by (simp add: parseLoop_input)
    then have "input options = None" by simp
    from validate_input_unset [OF h this, of env] eq show ?thesis by (simp add: m)
  qed
  have input_value: "options = parseLoop (?seen\<lparr>input := Some v\<rparr>) rest'"
    if "flag = ''--input'' \<or> flag = ''-i''" "rest = v # rest'" for v rest'
    using o that by (simp add: parseLoop_input)
  have output_last:
    "options = ?seen\<lparr>output := None\<rparr> \<and>
     (\<forall>config. configure env ?args = Inr config \<longrightarrow> output config = typeNameOf (type config))"
    if "flag = ''--output'' \<or> flag = ''-o''" "rest = []"
  proof -
    from o that have eq: "options = ?seen\<lparr>output := None\<rparr>" by (simp add: parseLoop_output)
    then have "output options = None" by simp
    from validate_output_unset [OF this, of env] eq show ?thesis by (simp add: c)
  qed
  have output_value: "options = parseLoop (?seen\<lparr>output := Some v\<rparr>) rest'"
    if "flag = ''--output'' \<or> flag = ''-o''" "rest = v # rest'" for v rest'
    using o that by (simp add: parseLoop_output)
  show ?thesis
  proof (cases rest)
    case Nil
    from type_last [OF _ Nil] input_last [OF _ Nil] output_last [OF _ Nil] Nil
    show ?thesis by simp
  next
    case (Cons v rest')
    from type_value [OF _ Cons] input_value [OF _ Cons] output_value [OF _ Cons] Cons
    show ?thesis by simp
  qed
qed

theorem value_flag_consumes_next_witness:
  "atSwitch [''--type'', ''heart''] \<and>
   parse [''--type'', ''heart'', ''--input'', ''--no-daily-table''] =
     Some \<lparr>type = Some ''heart'', input = Some ''--no-daily-table'', output = None,
           includeDailyTable = True, help = False\<rparr> \<and>
   parseLoop ((parseLoop initialOptions [''--type'', ''heart''])\<lparr>input := Some ''--no-daily-table''\<rparr>) [] =
     \<lparr>type = Some ''heart'', input = Some ''--no-daily-table'', output = None,
      includeDailyTable = True, help = False\<rparr> \<and>
   parse [''--type'', ''heart'', ''--input''] =
     Some \<lparr>type = Some ''heart'', input = None, output = None,
           includeDailyTable = True, help = False\<rparr> \<and>
   main sampleEnv [''--type'', ''heart'', ''--input''] =
     \<lparr>events = [ConsoleError InputRequired, PrintUsage], ending = Exited 1\<rparr>"
proof -
  have a: "atSwitch [''--type'', ''heart'']" by (simp add: valueFlags_def)
  from value_flag_consumes_next [OF a dashed_value_parse, of sampleEnv]
    value_flag_consumes_next [OF a missing_value_parse, of sampleEnv]
    a dashed_value_parse missing_value_parse
  show ?thesis by simp
qed


text \<open>
  C9, as written, fails: a token that starts with \<open>--\<close> and is none of the five long flags is
  not always skipped. In \<open>--output --verbose\<close> it is the value of \<open>--output\<close>, and the field
  \<open>output\<close> changes from unset to \<open>--verbose\<close>.
\<close>

theorem unknown_long_flag_counterexample:
  "startsWith ''--verbose'' ''--'' \<and>
   ''--verbose'' \<notin> {''--type'', ''--input'', ''--output'', ''--no-daily-table'', ''--help''} \<and>
   output initialOptions = None \<and>
   output (parseLoop initialOptions [''--output'', ''--verbose'']) = Some ''--verbose''"
  by (simp add: startsWith_def parseLoop_rules initialOptions_def)

text \<open>
  C9, amended. A token that the \<open>switch\<close> is run on (it is not the value read by a
  value-taking flag before it), that starts with \<open>--\<close> and is none of the five long flags, is
  skipped: the loop gives the same options record as on the list without the token, and, when
  other tokens are left, the whole run is the same as without it.
\<close>

theorem unknown_long_flag_skipped:
  assumes "atSwitch pre"
    and "startsWith tok ''--''"
    and "tok \<notin> {''--type'', ''--input'', ''--output'', ''--no-daily-table'', ''--help''}"
  shows "parseLoop options (pre @ tok # rest) = parseLoop options (pre @ rest) \<and>
     (pre @ rest \<noteq> [] \<longrightarrow> main env (pre @ tok # rest) = main env (pre @ rest))"
proof -
  have k: "tok \<notin> set knownFlags" by (rule long_not_known [OF assms(2,3)])
  have eq: "\<And>options. parseLoop options (pre @ tok # rest) = parseLoop options (pre @ rest)"
    using assms(1,2) by (simp add: parseLoop_append parseLoop_default [OF k])
  have "tok \<noteq> ''--help''" "tok \<noteq> ''-h''" using k by (simp_all add: knownFlags_def)
  then have "pre @ rest \<noteq> [] \<Longrightarrow> helpRequested (pre @ tok # rest) = helpRequested (pre @ rest)"
    by (auto simp: helpRequested_def)
  then have "pre @ rest \<noteq> [] \<Longrightarrow> main env (pre @ tok # rest) = main env (pre @ rest)"
    by (simp add: main_def configure_def parse_def eq)
  with eq show ?thesis by simp
qed

theorem unknown_long_flag_skipped_witness:
  "atSwitch [''--type'', ''heart''] \<and> startsWith ''--verbose'' ''--'' \<and>
   ''--verbose'' \<notin> {''--type'', ''--input'', ''--output'', ''--no-daily-table'', ''--help''} \<and>
   [''--type'', ''heart''] @ [''--input'', ''export.xml''] \<noteq> [] \<and>
   main sampleEnv ([''--type'', ''heart''] @ ''--verbose'' # [''--input'', ''export.xml'']) =
   main sampleEnv [''--type'', ''heart'', ''--input'', ''export.xml'']"
proof -
  have a: "atSwitch [''--type'', ''heart'']" by (simp add: valueFlags_def)
  have s: "startsWith ''--verbose'' ''--''" by (simp add: startsWith_def)
  have n: "''--verbose'' \<notin> {''--type'', ''--input'', ''--output'', ''--no-daily-table'', ''--help''}"
    by simp
  from unknown_long_flag_skipped [OF a s n, of initialOptions "[''--input'', ''export.xml'']" sampleEnv]
    a s n
  show ?thesis by simp
qed


section \<open>The daily table\<close>

text \<open>
  C6, as written, fails: \<open>--no-daily-table\<close> can appear in the argument list of a run that
  gets to dispatch with \<open>includeDailyTable\<close> true. After \<open>--output\<close> it is the output filename.
\<close>

theorem daily_table_counterexample:
  "''--no-daily-table'' \<in>
     set [''--type'', ''heart'', ''--input'', ''export.xml'', ''--output'', ''--no-daily-table''] \<and>
   configure sampleEnv
     [''--type'', ''heart'', ''--input'', ''export.xml'', ''--output'', ''--no-daily-table''] =
     Inr \<lparr>type = Some ''heart'', input = Some ''export.xml'',
          output = Some ''--no-daily-table'', includeDailyTable = True, help = False\<rparr>"
  by (simp add: configure_def parse_def helpRequested_def parseLoop_rules initialOptions_def
      validate_def truthy_def includes'_def inputExists_def sampleEnv_def sampleExists_def)

text \<open>
  C6, amended. In a run that gets to dispatch, \<open>includeDailyTable\<close> is false exactly when
  \<open>--no-daily-table\<close> is one of the tokens that the \<open>switch\<close> is run on, that is, when it
  appears somewhere else than right after a value-taking flag that is read as a flag. When the
  token is not in the argument list at all, \<open>includeDailyTable\<close> is true.
\<close>

theorem daily_table_flag:
  assumes "configure env args = Inr config"
  shows "(includeDailyTable config \<longleftrightarrow> ''--no-daily-table'' \<notin> set (switchTokens args)) \<and>
     (''--no-daily-table'' \<notin> set args \<longrightarrow> includeDailyTable config)"
proof -
  let ?options = "parseLoop initialOptions args"
  from assms have v: "validate env ?options = Inr config" by (simp add: configure_Inr)
  from validate_Inr [OF v] have "includeDailyTable config = includeDailyTable ?options"
    by (simp split: if_splits)
  then have eq: "includeDailyTable config \<longleftrightarrow> ''--no-daily-table'' \<notin> set (switchTokens args)"
    by (simp add: includeDailyTable_parseLoop initialOptions_def)
  with set_switchTokens [of args] show ?thesis by auto
qed

theorem daily_table_flag_witness:
  "configure sampleEnv [''--type'', ''heart'', ''--no-daily-table'', ''--input'', ''export.xml''] =
     Inr \<lparr>type = Some ''heart'', input = Some ''export.xml'',
          output = Some ''herzfrequenz-bericht.pdf'', includeDailyTable = False, help = False\<rparr> \<and>
   ''--no-daily-table'' \<in>
     set (switchTokens [''--type'', ''heart'', ''--no-daily-table'', ''--input'', ''export.xml'']) \<and>
   configure sampleEnv [''--type'', ''heart'', ''--input'', ''export.xml''] =
     Inr \<lparr>type = Some ''heart'', input = Some ''export.xml'',
          output = Some ''herzfrequenz-bericht.pdf'', includeDailyTable = True, help = False\<rparr> \<and>
   ''--no-daily-table'' \<notin> set [''--type'', ''heart'', ''--input'', ''export.xml'']"
  using daily_table_flag [OF quiet_configure] daily_table_flag [OF sample_configure]
    quiet_configure sample_configure
  by simp

section \<open>A failing exporter\<close>

text \<open>
  C7. When the exporter that is called throws or rejects with a value, the run is: the status
  block, the one call of the exporter, one error line, and exit code 1. There is one call
  and nothing after the error line. The error line shows the message of the value when it is
  an \<open>Error\<close>, and the value itself otherwise.
\<close>

theorem exporter_error_reported_once:
  assumes "configure env args = Inr config"
    and "selected env config = Some (name, Rejected e)"
  shows "main env args =
       \<lparr>events = statusBlock config @
          [Call name (input config) (output config) (includeDailyTable config),
           ConsoleError (Caught (shownOf e))],
        ending = Exited 1\<rparr> \<and>
     filter isCall (events (main env args)) =
       [Call name (input config) (output config) (includeDailyTable config)] \<and>
     (\<forall>m. e = ErrorObject m \<longrightarrow> shownOf e = Message m) \<and>
     (\<forall>v. e = OtherValue v \<longrightarrow> shownOf e = Raw v)"
proof -
  from assms have m: "main env args =
       \<lparr>events = statusBlock config @
          [Call name (input config) (output config) (includeDailyTable config),
           ConsoleError (Caught (shownOf e))],
        ending = Exited 1\<rparr>"
    by (simp add: main_def dispatch_def)
  then have "filter isCall (events (main env args)) =
       [Call name (input config) (output config) (includeDailyTable config)]"
    by (simp add: isCall_statusBlock)
  with m show ?thesis by simp
qed

theorem exporter_error_reported_once_witness:
  "configure sampleEnv [''-i'', ''export.xml'', ''-t'', ''sleep'', ''-o'', ''night.pdf''] =
     Inr \<lparr>type = Some ''sleep'', input = Some ''export.xml'', output = Some ''night.pdf'',
          includeDailyTable = True, help = False\<rparr> \<and>
   selected sampleEnv
     \<lparr>type = Some ''sleep'', input = Some ''export.xml'', output = Some ''night.pdf'',
      includeDailyTable = True, help = False\<rparr> =
     Some (ExportSleep, Rejected (ErrorObject ''no sleep records'')) \<and>
   main sampleEnv [''-i'', ''export.xml'', ''-t'', ''sleep'', ''-o'', ''night.pdf''] =
     \<lparr>events =
        [ConsoleLog Title, ConsoleLog (InputIs (Some ''export.xml'')),
         ConsoleLog (TypeIs (Some ''sleep'')), ConsoleLog (OutputIs (Some ''night.pdf'')),
         ConsoleLog (DailyTableIs True), ConsoleLog Blank,
         Call ExportSleep (Some ''export.xml'') (Some ''night.pdf'') True,
         ConsoleError (Caught (Message ''no sleep records''))],
      ending = Exited 1\<rparr>"
proof -
  have s: "selected sampleEnv
     \<lparr>type = Some ''sleep'', input = Some ''export.xml'', output = Some ''night.pdf'',
      includeDailyTable = True, help = False\<rparr> =
     Some (ExportSleep, Rejected (ErrorObject ''no sleep records''))"
    by (simp add: selected_def sampleEnv_def)
  from exporter_error_reported_once [OF sleep_configure s] sleep_configure s
  show ?thesis by (simp add: statusBlock_def)
qed

end
